theory Spec2Isabelle
  imports Complex_Main "HOL-Library.AList"
begin

section \<open>Python values used by os\_info.py\<close>

text \<open>
  A Python \<open>dict\<close> with string keys is an association list with distinct keys in
  insertion order: \<open>d[k] = v\<close> is \<open>AList.update k v d\<close> (an existing key keeps its
  place, a new key goes to the end) and \<open>d.get(k)\<close> is \<open>map_of d k\<close>.
\<close>

type_synonym auth_config = "(string \<times> string) list"

datatype error =
    ImportError string
  | ValueError string
  | ParsingError string
  | KeyError string
  | IndexError
  | ZeroDivisionError
  | SDKException string

text \<open>Truthiness of \<open>d.get(k)\<close> for string values: absent (\<open>None\<close>) and \<open>''\<close> are falsy.\<close>

fun truthy :: "string option \<Rightarrow> bool" where
  "truthy None = False"
| "truthy (Some s) = (s \<noteq> [])"

definition dict_set :: "string \<Rightarrow> string \<Rightarrow> auth_config \<Rightarrow> auth_config" where
  "dict_set k v d = AList.update k v d"

text \<open>\<open>d.setdefault(k, v)\<close>: stores \<open>v\<close> only when the key \<open>k\<close> is absent.\<close>

definition setdefault :: "string \<Rightarrow> string \<Rightarrow> auth_config \<Rightarrow> auth_config" where
  "setdefault k v d = (case map_of d k of None \<Rightarrow> dict_set k v d | Some _ \<Rightarrow> d)"

text \<open>\<open>sep.join(xs)\<close>.\<close>

fun join :: "string \<Rightarrow> string list \<Rightarrow> string" where
  "join sep [] = []"
| "join sep [x] = x"
| "join sep (x # y # ys) = x @ sep @ join sep (y # ys)"

text \<open>
  \<open>s.strip()\<close>. Characters are bytes here, so the whitespace removed is the ASCII part
  of what \<open>str.isspace\<close> accepts: tab, line feed, vertical tab, form feed, carriage
  return, the four separators 0x1C..0x1F and the space.
\<close>

definition is_space :: "char \<Rightarrow> bool" where
  "is_space c = (let n = of_char c :: nat in (9 \<le> n \<and> n \<le> 13) \<or> (28 \<le> n \<and> n \<le> 32))"

definition strip :: "string \<Rightarrow> string" where
  "strip s = rev (dropWhile is_space (rev (dropWhile is_space s)))"

text \<open>
  Numbers. A Python \<open>int\<close> is unbounded; a Python \<open>float\<close> is kept as the exact rational
  it stands for. \<open>a / b\<close> on two ints is the exact quotient here, where Python takes the
  double nearest to it; the two agree on every quotient a double holds exactly.
\<close>

datatype number = PyInt int | PyFloat rat

fun num_val :: "number \<Rightarrow> rat" where
  "num_val (PyInt i) = of_int i"
| "num_val (PyFloat q) = q"

text \<open>A value of a report row: a string, a number or \<open>None\<close>.\<close>

datatype cell = CStr string | CNum number | CNone

type_synonym row = "(string \<times> cell) list"

section \<open>The world outside the program\<close>

text \<open>
  What \<open>configparser\<close> makes of a file. \<open>Unparsable\<close>: the file is not INI syntax, or a
  recognized option of its section cannot be read (its value does not interpolate),
  so that the \<open>try\<close> block of \<open>load_config_file\<close> raises. \<open>Ini\<close>: the parser holds these
  sections, each as its section proxy shows it, a dict from option name to value. A
  path that exists and holds nothing readable (a directory) is skipped by \<open>read\<close>
  and is \<open>Ini []\<close>; a path with no file is \<open>None\<close> in the world's \<open>files\<close>.
\<close>

datatype ini_file =
    Unparsable string
  | Ini "(string \<times> (string \<times> string) list) list"

text \<open>
  The answers the operator types at the eight prompts of \<open>get_auth_interactive\<close>, in
  the order of the prompts (\<open>input()\<close> seven times, \<open>getpass.getpass\<close> for the password).
\<close>

record answers =
  ans_auth_url :: string
  ans_username :: string
  ans_password :: string
  ans_project_name :: string
  ans_user_domain :: string
  ans_project_domain :: string
  ans_region :: string
  ans_interface :: string

record world =
  environ :: "string \<Rightarrow> string option"
  home :: string
  files :: "string \<Rightarrow> ini_file option"
  typed :: answers

text \<open>
  What the program does to the world, in order: the resolver reads the environment,
  probes and loads files and prompts; the report builder lists servers and
  hypervisors and writes CSV files (file name, header, rows); both print.
\<close>

datatype event =
    ReadEnvironment
  | PathExists string
  | LoadConfigFile string
  | Prompt
  | Print string
  | ListServers
  | ListHypervisors
  | WriteCsv string "string list" "row list"

section \<open>load\_config\_file\<close>

definition config_mapping :: "(string \<times> string) list" where
  "config_mapping =
     [(''auth_url'', ''auth_url''),
      (''username'', ''username''),
      (''password'', ''password''),
      (''project_name'', ''project_name''),
      (''user_domain_name'', ''user_domain_name''),
      (''project_domain_name'', ''project_domain_name''),
      (''region_name'', ''region_name''),
      (''interface'', ''interface'')]"

text \<open>\<open>config.read(config_path)\<close>: the sections the parser holds afterwards, or the raise.\<close>

definition config_read ::
  "(string \<Rightarrow> ini_file option) \<Rightarrow> string \<Rightarrow> error + (string \<times> (string \<times> string) list) list" where
  "config_read fs config_path =
     (case fs config_path of
        None \<Rightarrow> Inr []
      | Some (Unparsable msg) \<Rightarrow> Inl (ParsingError msg)
      | Some (Ini sections) \<Rightarrow> Inr sections)"

text \<open>The loop \<open>for config_key, param_key in config_mapping.items()\<close>.\<close>

fun copy_keys ::
  "(string \<times> string) list \<Rightarrow> (string \<times> string) list \<Rightarrow> auth_config \<Rightarrow> auth_config" where
  "copy_keys section [] auth = auth"
| "copy_keys section ((config_key, param_key) # rest) auth =
     (case map_of section config_key of
        Some v \<Rightarrow> copy_keys section rest (dict_set param_key v auth)
      | None \<Rightarrow> copy_keys section rest auth)"

text \<open>The body of the \<open>try\<close> block of \<open>load_config_file\<close>.\<close>

definition load_config_file_try ::
  "(string \<Rightarrow> ini_file option) \<Rightarrow> string \<Rightarrow> error + auth_config" where
  "load_config_file_try fs config_path =
     (case config_read fs config_path of
        Inl e \<Rightarrow> Inl e
      | Inr config \<Rightarrow>
          (case map_of config ''openstack'' of
             None \<Rightarrow> Inl (ValueError ''Configuration file must contain an [openstack] section'')
           | Some section \<Rightarrow> Inr (copy_keys section config_mapping [])))"

text \<open>\<open>except Exception\<close>: every raise of the body becomes the result \<open>None\<close>.\<close>

definition load_config_file :: "(string \<Rightarrow> ini_file option) \<Rightarrow> string \<Rightarrow> auth_config option" where
  "load_config_file fs config_path =
     (case load_config_file_try fs config_path of
        Inl e \<Rightarrow> None
      | Inr auth \<Rightarrow> Some auth)"

section \<open>get\_auth\_from\_environment\<close>

definition env_mapping :: "(string \<times> string) list" where
  "env_mapping =
     [(''OS_AUTH_URL'', ''auth_url''),
      (''OS_USERNAME'', ''username''),
      (''OS_PASSWORD'', ''password''),
      (''OS_PROJECT_NAME'', ''project_name''),
      (''OS_USER_DOMAIN_NAME'', ''user_domain_name''),
      (''OS_PROJECT_DOMAIN_NAME'', ''project_domain_name''),
      (''OS_REGION_NAME'', ''region_name''),
      (''OS_INTERFACE'', ''interface'')]"

fun copy_env ::
  "(string \<Rightarrow> string option) \<Rightarrow> (string \<times> string) list \<Rightarrow> auth_config \<Rightarrow> auth_config" where
  "copy_env env [] auth = auth"
| "copy_env env ((env_var, param_key) # rest) auth =
     (case env env_var of
        Some v \<Rightarrow> (if v \<noteq> [] then copy_env env rest (dict_set param_key v auth)
                   else copy_env env rest auth)
      | None \<Rightarrow> copy_env env rest auth)"

definition get_auth_from_environment :: "(string \<Rightarrow> string option) \<Rightarrow> auth_config" where
  "get_auth_from_environment env = copy_env env env_mapping []"

section \<open>get\_auth\_interactive\<close>

definition get_auth_interactive :: "answers \<Rightarrow> auth_config" where
  "get_auth_interactive a =
     (let auth_config = [];
          auth_config = dict_set ''auth_url'' (strip (ans_auth_url a)) auth_config;
          auth_config = dict_set ''username'' (strip (ans_username a)) auth_config;
          auth_config = dict_set ''password'' (ans_password a) auth_config;
          auth_config = dict_set ''project_name'' (strip (ans_project_name a)) auth_config;
          user_domain = strip (ans_user_domain a);
          auth_config = dict_set ''user_domain_name''
                          (if user_domain \<noteq> [] then user_domain else ''default'') auth_config;
          project_domain = strip (ans_project_domain a);
          auth_config = dict_set ''project_domain_name''
                          (if project_domain \<noteq> [] then project_domain else ''default'') auth_config;
          region = strip (ans_region a);
          auth_config = (if region \<noteq> [] then dict_set ''region_name'' region auth_config
                         else auth_config);
          interface = strip (ans_interface a);
          auth_config = dict_set ''interface''
                          (if interface \<noteq> [] then interface else ''public'') auth_config
      in auth_config)"

section \<open>validate\_auth\_config\<close>

definition required_fields :: "string list" where
  "required_fields = [''auth_url'', ''username'', ''password'', ''project_name'']"

definition validate_auth_config :: "auth_config \<Rightarrow> bool \<times> string list" where
  "validate_auth_config auth_config =
     (let missing_fields = filter (\<lambda>field. \<not> truthy (map_of auth_config field)) required_fields
      in (length missing_fields = 0, missing_fields))"

section \<open>setup\_openstack\_connection\<close>

text \<open>
  \<open>os.path.expanduser\<close> on the two default paths that start with \<open>~/\<close>: the tilde is
  replaced by the home directory of the world.
\<close>

definition expanduser :: "world \<Rightarrow> string \<Rightarrow> string" where
  "expanduser w p = (if take 2 p = ''~/'' then home w @ drop 1 p else p)"

definition default_config_paths :: "world \<Rightarrow> string list" where
  "default_config_paths w =
     [expanduser w ''~/.config/openstack/clouds.ini'',
      expanduser w ''~/.openstack/config'',
      ''./openstack.conf'']"

text \<open>
  The loop over \<open>default_config_paths\<close> with its \<open>break\<close>: the events of the loop, and the
  \<open>file_config\<close> it adopted, if any. \<open>os.path.exists\<close> holds of a path where the world has
  a file; \<open>LoadConfigFile p\<close> stands for the call \<open>load_config_file(p)\<close>.
\<close>

fun try_config_paths :: "world \<Rightarrow> string list \<Rightarrow> event list \<times> auth_config option" where
  "try_config_paths w [] = ([], None)"
| "try_config_paths w (config_path # rest) =
     (if files w config_path \<noteq> None then
        (case load_config_file (files w) config_path of
           Some file_config \<Rightarrow>
             if file_config \<noteq> [] \<and> fst (validate_auth_config file_config) then
               ([PathExists config_path, LoadConfigFile config_path,
                 Print (''Using configuration from: '' @ config_path)], Some file_config)
             else
               (case try_config_paths w rest of
                  (ev, found) \<Rightarrow> (PathExists config_path # LoadConfigFile config_path # ev, found))
         | None \<Rightarrow>
             (case try_config_paths w rest of
                (ev, found) \<Rightarrow> (PathExists config_path # LoadConfigFile config_path # ev, found)))
      else
        (case try_config_paths w rest of
           (ev, found) \<Rightarrow> (PathExists config_path # ev, found)))"

text \<open>The branch \<open>auth_method == 'auto'\<close>.\<close>

definition auto_auth :: "world \<Rightarrow> event list \<times> auth_config" where
  "auto_auth w =
     (let auth_config = get_auth_from_environment (environ w) in
      if \<not> fst (validate_auth_config auth_config) then
        (case try_config_paths w (default_config_paths w) of
           (ev, found) \<Rightarrow>
             (let auth_config = (case found of Some file_config \<Rightarrow> file_config | None \<Rightarrow> auth_config) in
              if \<not> fst (validate_auth_config auth_config) then
                (ReadEnvironment # ev @
                   [Print ''No valid authentication found in environment or config files.'', Prompt],
                 get_auth_interactive (typed w))
              else (ReadEnvironment # ev, auth_config)))
      else ([ReadEnvironment], auth_config))"

text \<open>The chain \<open>if auth_method == ... elif ... else\<close>: the candidate record, or the raise.\<close>

definition choose_auth_config ::
  "world \<Rightarrow> string \<Rightarrow> string option \<Rightarrow> auth_config \<Rightarrow> event list \<times> (error + auth_config)" where
  "choose_auth_config w auth_method config_file kwargs =
     (if auth_method = ''auto'' then
        (case auto_auth w of (ev, auth_config) \<Rightarrow> (ev, Inr auth_config))
      else if auth_method = ''env'' then
        ([ReadEnvironment], Inr (get_auth_from_environment (environ w)))
      else if auth_method = ''config'' then
        (case config_file of
           None \<Rightarrow>
             ([], Inl (ValueError ''Config file path must be provided when using 'config' auth method''))
         | Some path \<Rightarrow>
             if path = [] then
               ([], Inl (ValueError ''Config file path must be provided when using 'config' auth method''))
             else
               (case load_config_file (files w) path of
                  None \<Rightarrow>
                    ([LoadConfigFile path],
                     Inl (ValueError (''Failed to load configuration from '' @ path)))
                | Some auth_config \<Rightarrow>
                    if auth_config = [] then
                      ([LoadConfigFile path],
                       Inl (ValueError (''Failed to load configuration from '' @ path)))
                    else ([LoadConfigFile path], Inr auth_config)))
      else if auth_method = ''interactive'' then
        ([Prompt], Inr (get_auth_interactive (typed w)))
      else if auth_method = ''args'' then
        ([], Inr kwargs)
      else
        ([], Inl (ValueError (''Unknown authentication method: '' @ auth_method))))"

text \<open>The three \<open>setdefault\<close> calls, in the order of the source.\<close>

definition apply_defaults :: "auth_config \<Rightarrow> auth_config" where
  "apply_defaults auth_config =
     setdefault ''interface'' ''public''
       (setdefault ''project_domain_name'' ''default''
          (setdefault ''user_domain_name'' ''default'' auth_config))"

text \<open>Validation of the candidate record and the defaults (the lines after the chain).\<close>

definition check_auth_config :: "auth_config \<Rightarrow> error + auth_config" where
  "check_auth_config auth_config =
     (case validate_auth_config auth_config of
        (is_valid, missing_fields) \<Rightarrow>
          if \<not> is_valid then
            Inl (ValueError (''Missing required authentication fields: '' @ join '', '' missing_fields))
          else Inr (apply_defaults auth_config))"

text \<open>
  Everything \<open>setup_openstack_connection\<close> does before it calls the SDK: the record it
  passes to \<open>openstack.connect\<close>, or the raise. \<open>sdk\<close> is \<open>OPENSTACK_AVAILABLE\<close>.
\<close>

definition resolve_auth_config ::
  "bool \<Rightarrow> world \<Rightarrow> string \<Rightarrow> string option \<Rightarrow> auth_config \<Rightarrow> event list \<times> (error + auth_config)" where
  "resolve_auth_config sdk w auth_method config_file kwargs =
     (if \<not> sdk then
        ([], Inl (ImportError (''OpenStack SDK is not installed. Please install it with:'' @ [CHR 0x0A] @
                              ''pip install openstacksdk'' @ [CHR 0x0A] @ ''or'' @ [CHR 0x0A] @
                              ''pip install -r requirements-test.txt'')))
      else
        (case choose_auth_config w auth_method config_file kwargs of
           (ev, Inl e) \<Rightarrow> (ev, Inl e)
         | (ev, Inr auth_config) \<Rightarrow> (ev, check_auth_config auth_config)))"

fun str_error :: "error \<Rightarrow> string" where
  "str_error (ImportError m) = m"
| "str_error (ValueError m) = m"
| "str_error (ParsingError m) = m"
| "str_error (KeyError m) = m"
| "str_error IndexError = ''list index out of range''"
| "str_error ZeroDivisionError = ''division by zero''"
| "str_error (SDKException m) = m"

text \<open>
  The whole function. \<open>connect\<close> is the collaborator: \<open>openstack.connect(**auth_config)\<close>
  followed by \<open>conn.authorize()\<close>, which returns the connection or raises.
\<close>

definition setup_openstack_connection ::
  "bool \<Rightarrow> (auth_config \<Rightarrow> error + 'conn) \<Rightarrow> world \<Rightarrow> string \<Rightarrow> string option \<Rightarrow> auth_config
     \<Rightarrow> event list \<times> (error + 'conn)" where
  "setup_openstack_connection sdk connect w auth_method config_file kwargs =
     (case resolve_auth_config sdk w auth_method config_file kwargs of
        (ev, Inl e) \<Rightarrow> (ev, Inl e)
      | (ev, Inr auth_config) \<Rightarrow>
          (case connect auth_config of
             Inr conn \<Rightarrow>
               (ev @ [Print (''Successfully connected to OpenStack at '' @
                               (case map_of auth_config ''auth_url'' of Some v \<Rightarrow> v | None \<Rightarrow> [])),
                      Print (''Project: '' @
                               (case map_of auth_config ''project_name'' of Some v \<Rightarrow> v | None \<Rightarrow> [])),
                      Print (''User: '' @
                               (case map_of auth_config ''username'' of Some v \<Rightarrow> v | None \<Rightarrow> []))],
                Inr conn)
           | Inl e \<Rightarrow> (ev @ [Print (''Error connecting to OpenStack: '' @ str_error e)], Inl e)))"

section \<open>String helpers of the report builder\<close>

text \<open>\<open>s.split(c)\<close> for a separator of one character: never empty.\<close>

fun split_char :: "char \<Rightarrow> string \<Rightarrow> string list" where
  "split_char c [] = [[]]"
| "split_char c (x # xs) =
     (if x = c then [] # split_char c xs
      else (case split_char c xs of
              w # ws \<Rightarrow> (x # w) # ws
            | [] \<Rightarrow> [[x]]))"

text \<open>\<open>sub in s\<close> on strings.\<close>

fun contains :: "string \<Rightarrow> string \<Rightarrow> bool" where
  "contains sub [] = (sub = [])"
| "contains sub (x # xs) = (take (length sub) (x # xs) = sub \<or> contains sub xs)"

text \<open>\<open>str(n)\<close> for an int.\<close>

fun str_nat :: "nat \<Rightarrow> string" where
  "str_nat n =
     (if n < 10 then [char_of (48 + n)]
      else str_nat (n div 10) @ [char_of (48 + n mod 10)])"

declare str_nat.simps [simp del]

definition str_int :: "int \<Rightarrow> string" where
  "str_int i = (if i < 0 then CHR ''-'' # str_nat (nat (- i)) else str_nat (nat i))"

section \<open>Arithmetic of the report builder\<close>

text \<open>\<open>a / b\<close> on ints: raises on a zero divisor.\<close>

definition truediv :: "int \<Rightarrow> int \<Rightarrow> error + rat" where
  "truediv a b = (if b = 0 then Inl ZeroDivisionError else Inr (of_int a / of_int b))"

definition bind_err :: "error + 'a \<Rightarrow> ('a \<Rightarrow> error + 'b) \<Rightarrow> error + 'b" where
  "bind_err r f = (case r of Inl e \<Rightarrow> Inl e | Inr x \<Rightarrow> f x)"

text \<open>\<open>(a / b) if b > 0 else 0\<close> and \<open>(a / b) * 100 if b > 0 else 0\<close>.\<close>

definition guarded_ratio :: "int \<Rightarrow> int \<Rightarrow> error + number" where
  "guarded_ratio a b =
     (if b > 0 then bind_err (truediv a b) (\<lambda>q. Inr (PyFloat q)) else Inr (PyInt 0))"

definition guarded_percentage :: "int \<Rightarrow> int \<Rightarrow> error + number" where
  "guarded_percentage a b =
     (if b > 0 then bind_err (truediv a b) (\<lambda>q. Inr (PyFloat (q * 100))) else Inr (PyInt 0))"

text \<open>
  \<open>round(x, 2)\<close>: an int is returned as it is; a float goes to the nearest multiple of
  1/100, a tie to the even one.
\<close>

definition round_half_even :: "rat \<Rightarrow> int" where
  "round_half_even y =
     (let f = \<lfloor>y\<rfloor>; d = y - of_int f in
      if d < 1 / 2 then f
      else if d > 1 / 2 then f + 1
      else if even f then f else f + 1)"

fun round2 :: "number \<Rightarrow> number" where
  "round2 (PyInt i) = PyInt i"
| "round2 (PyFloat q) = PyFloat (of_int (round_half_even (q * 100)) / 100)"

text \<open>\<open>round((a / b) * 100, 2) if b > 0 else 0\<close>, the disk usage entry.\<close>

definition guarded_rounded_percentage :: "int \<Rightarrow> int \<Rightarrow> error + number" where
  "guarded_rounded_percentage a b =
     (if b > 0 then bind_err (truediv a b) (\<lambda>q. Inr (round2 (PyFloat (q * 100))))
      else Inr (PyInt 0))"

section \<open>What the cloud SDK hands to the report builder\<close>

record address =
  addr :: string
  ip_type :: string

text \<open>
  The \<open>flavor\<close> and \<open>image\<close> entries of a server: the key is absent, or present with a
  falsy value (\<open>None\<close>, an empty dict), or it holds an id.
\<close>

datatype ref = Absent | Empty | Ref string

record flavor =
  fl_name :: string
  fl_vcpus :: "int option"
  fl_ram :: "int option"
  fl_disk :: "int option"

record volume =
  vol_id :: string
  vol_name :: string
  vol_size :: int

text \<open>
  A server. Optional fields are keys that may be absent; \<open>sv_project_id = None\<close> also
  stands for a falsy project id; \<open>sv_metadata\<close> is \<open>str(server.metadata)\<close>.
\<close>

record server =
  sv_id :: string
  sv_name :: string
  sv_status :: string
  sv_project_id :: "string option"
  sv_flavor :: ref
  sv_image :: ref
  sv_addresses :: "(string \<times> address list) list"
  sv_attached_volumes :: "string list"
  sv_power_state :: "cell option"
  sv_vm_state :: "cell option"
  sv_availability_zone :: "cell option"
  sv_launched_at :: "string option"
  sv_hypervisor_hostname :: "string option"
  sv_created_at :: string
  sv_metadata :: string

record hypervisor =
  hv_id :: string
  hv_name :: string
  hv_type :: string
  hv_state :: string
  hv_status :: string
  hv_vcpus :: int
  hv_vcpus_used :: int
  hv_memory_size :: int
  hv_memory_used :: int
  hv_local_disk_size :: int
  hv_local_disk_used :: int
  hv_running_vms :: int
  hv_host_ip :: string

text \<open>
  The connection: the two listings, each as the list the program iterates over;
  the four lookups by id (each returns or raises; a project, flavor or image lookup
  may return \<open>None\<close>); and \<open>seconds_since\<close>, the seconds between a launch timestamp
  and the clock at the time of the call (it raises on a timestamp that
  \<open>datetime.fromisoformat\<close> rejects).
\<close>

record conn =
  servers :: "server list"
  hypervisors :: "hypervisor list"
  get_project :: "string \<Rightarrow> error + string option"
  get_flavor :: "string \<Rightarrow> error + flavor option"
  get_image :: "string \<Rightarrow> error + string option"
  get_volume :: "string \<Rightarrow> error + volume"
  seconds_since :: "string \<Rightarrow> error + rat"

section \<open>The instance pass\<close>

text \<open>\<open>x['id'] if key in server else None\<close>, then the lookup.\<close>

definition lookup_ref :: "ref \<Rightarrow> (string \<Rightarrow> error + 'a option) \<Rightarrow> error + 'a option" where
  "lookup_ref r get =
     (case r of
        Absent \<Rightarrow> Inr None
      | Empty \<Rightarrow> Inl (KeyError ''id'')
      | Ref i \<Rightarrow> get i)"

definition network_ips :: "server \<Rightarrow> string list" where
  "network_ips sv =
     concat (map (\<lambda>(network_name, addresses).
                    map (\<lambda>address. network_name @ '':'' @ addr address @
                                     '' ('' @ ip_type address @ '')'') addresses)
                 (sv_addresses sv))"

definition volumes_info :: "conn \<Rightarrow> server \<Rightarrow> string list" where
  "volumes_info c sv =
     map (\<lambda>vol. case get_volume c vol of
                   Inr volume_details \<Rightarrow>
                     ''ID:'' @ vol_id volume_details @ '', Name:'' @ vol_name volume_details @
                     '', Size:'' @ str_int (vol_size volume_details) @ ''GB''
                 | Inl e \<Rightarrow> ''ID:'' @ vol @ '', Details: Error - '' @ str_error e)
         (sv_attached_volumes sv)"

definition uptime_seconds :: "conn \<Rightarrow> server \<Rightarrow> error + cell" where
  "uptime_seconds c sv =
     (if sv_status sv = ''ACTIVE'' then
        (case sv_launched_at sv of
           None \<Rightarrow> Inr CNone
         | Some launched_at_iso \<Rightarrow>
             if launched_at_iso \<noteq> [] then
               bind_err (seconds_since c launched_at_iso) (\<lambda>q. Inr (CNum (PyFloat q)))
             else Inr CNone)
      else Inr CNone)"

text \<open>
  The \<open>"Public IP"\<close> entry:
  \<open>network_ips[0].split(':')[1].split('(')[0].strip() if network_ips and 'floating' in network_ips[0] else 'N/A'\<close>.
\<close>

definition public_ip :: "string list \<Rightarrow> error + string" where
  "public_ip ips =
     (case ips of
        [] \<Rightarrow> Inr ''N/A''
      | first # _ \<Rightarrow>
          if contains ''floating'' first then
            (case split_char CHR '':'' first of
               _ # second # _ \<Rightarrow>
                 (case split_char CHR ''('' second of
                    before # _ \<Rightarrow> Inr (strip before)
                  | [] \<Rightarrow> Inl IndexError)
             | _ \<Rightarrow> Inl IndexError)
          else Inr ''N/A'')"

definition opt_cell :: "cell option \<Rightarrow> cell" where
  "opt_cell v = (case v of Some x \<Rightarrow> x | None \<Rightarrow> CStr ''N/A'')"

definition int_cell :: "int option \<Rightarrow> cell" where
  "int_cell v = (case v of Some i \<Rightarrow> CNum (PyInt i) | None \<Rightarrow> CNone)"

text \<open>The body of the loop \<open>for server in all_servers\<close> of the instance pass, after its print.\<close>

definition instance_details :: "conn \<Rightarrow> server \<Rightarrow> error + row" where
  "instance_details c sv =
     bind_err (case sv_project_id sv of Some pid \<Rightarrow> get_project c pid | None \<Rightarrow> Inr None) (\<lambda>project.
     bind_err (lookup_ref (sv_flavor sv) (get_flavor c)) (\<lambda>flavor.
     bind_err (lookup_ref (sv_image sv) (get_image c)) (\<lambda>image.
     bind_err (uptime_seconds c sv) (\<lambda>uptime.
     bind_err (public_ip (network_ips sv)) (\<lambda>public.
       Inr [(''ID'', CStr (sv_id sv)),
            (''Name'', CStr (sv_name sv)),
            (''Status'', CStr (sv_status sv)),
            (''Power State'', opt_cell (sv_power_state sv)),
            (''VM State'', opt_cell (sv_vm_state sv)),
            (''Project Name'', (case project of Some n \<Rightarrow> CStr n | None \<Rightarrow> CStr ''N/A'')),
            (''Availability Zone'', opt_cell (sv_availability_zone sv)),
            (''Hypervisor Hostname'',
               (case sv_hypervisor_hostname sv of Some h \<Rightarrow> CStr h | None \<Rightarrow> CStr ''N/A'')),
            (''Image Name'', (case image of Some n \<Rightarrow> CStr n | None \<Rightarrow> CStr ''N/A'')),
            (''Flavor Name'', (case flavor of Some f \<Rightarrow> CStr (fl_name f) | None \<Rightarrow> CStr ''N/A'')),
            (''VCPUs'', (case flavor of Some f \<Rightarrow> int_cell (fl_vcpus f) | None \<Rightarrow> CStr ''N/A'')),
            (''RAM (MB)'', (case flavor of Some f \<Rightarrow> int_cell (fl_ram f) | None \<Rightarrow> CStr ''N/A'')),
            (''Disk (GB)'', (case flavor of Some f \<Rightarrow> int_cell (fl_disk f) | None \<Rightarrow> CStr ''N/A'')),
            (''Uptime (s)'', uptime),
            (''Created At'', CStr (sv_created_at sv)),
            (''Public IP'', CStr public),
            (''Network IPs'', CStr (join ''; '' (network_ips sv))),
            (''Attached Volumes'', CStr (join ''; '' (volumes_info c sv))),
            (''Metadata'', CStr (sv_metadata sv))])))))"

text \<open>The loop itself: the prints, and the rows or the first raise.\<close>

fun instance_rows :: "conn \<Rightarrow> server list \<Rightarrow> event list \<times> (error + row list)" where
  "instance_rows c [] = ([], Inr [])"
| "instance_rows c (sv # rest) =
     (let line = Print (''Processing instance: '' @ sv_name sv @ '' ('' @ sv_id sv @ '')'') in
      case instance_details c sv of
        Inl e \<Rightarrow> ([line], Inl e)
      | Inr r \<Rightarrow>
          (case instance_rows c rest of
             (ev, Inl e) \<Rightarrow> (line # ev, Inl e)
           | (ev, Inr rs) \<Rightarrow> (line # ev, Inr (r # rs))))"

section \<open>The hypervisor pass\<close>

definition active_statuses :: "string list" where
  "active_statuses = [''ACTIVE'', ''PAUSED'', ''SUSPENDED'']"

text \<open>\<open>x or 0\<close> on an optional int.\<close>

definition or_zero :: "int option \<Rightarrow> int" where
  "or_zero v = (case v of Some i \<Rightarrow> i | None \<Rightarrow> 0)"

text \<open>
  The state of the loop \<open>for server in all_servers\<close> of one hypervisor: the two sums,
  the matching servers, and the warnings printed.
\<close>

record allocation =
  allocated_vcpus :: int
  allocated_memory :: int
  instances_on_hypervisor :: "server list"
  warnings :: "event list"

fun scan_servers :: "conn \<Rightarrow> hypervisor \<Rightarrow> server list \<Rightarrow> allocation \<Rightarrow> allocation" where
  "scan_servers c h [] acc = acc"
| "scan_servers c h (sv # rest) acc =
     (let server_hypervisor = (case sv_hypervisor_hostname sv of Some n \<Rightarrow> n | None \<Rightarrow> []) in
      if server_hypervisor = hv_name h \<and> sv_status sv \<in> set active_statuses then
        (let acc = acc\<lparr>instances_on_hypervisor := instances_on_hypervisor acc @ [sv]\<rparr> in
         case sv_flavor sv of
           Ref fid \<Rightarrow>
             (case get_flavor c fid of
                Inr (Some fl) \<Rightarrow>
                  scan_servers c h rest
                    (acc\<lparr>allocated_vcpus := allocated_vcpus acc + or_zero (fl_vcpus fl),
                         allocated_memory := allocated_memory acc + or_zero (fl_ram fl)\<rparr>)
              | Inr None \<Rightarrow> scan_servers c h rest acc
              | Inl e \<Rightarrow>
                  scan_servers c h rest
                    (acc\<lparr>warnings := warnings acc @
                           [Print (''Warning: Could not get flavor details for server '' @
                                   sv_id sv @ '': '' @ str_error e)]\<rparr>))
         | _ \<Rightarrow> scan_servers c h rest acc)
      else scan_servers c h rest acc)"

definition yes_no :: "number \<Rightarrow> cell" where
  "yes_no ratio = (if num_val ratio > 1 then CStr ''Yes'' else CStr ''No'')"

text \<open>The row of one hypervisor, from the loop's result.\<close>

definition hypervisor_row :: "hypervisor \<Rightarrow> allocation \<Rightarrow> error + row" where
  "hypervisor_row h a =
     bind_err (guarded_ratio (allocated_vcpus a) (hv_vcpus h)) (\<lambda>cpu_overcommit_ratio.
     bind_err (guarded_ratio (allocated_memory a) (hv_memory_size h)) (\<lambda>memory_overcommit_ratio.
     bind_err (guarded_percentage (hv_vcpus_used h) (hv_vcpus h)) (\<lambda>physical_cpu_usage.
     bind_err (guarded_percentage (hv_memory_used h) (hv_memory_size h)) (\<lambda>physical_memory_usage.
     bind_err (guarded_percentage (allocated_vcpus a) (hv_vcpus h)) (\<lambda>allocated_cpu_percentage.
     bind_err (guarded_percentage (allocated_memory a) (hv_memory_size h)) (\<lambda>allocated_memory_percentage.
     bind_err (guarded_rounded_percentage (hv_local_disk_used h) (hv_local_disk_size h)) (\<lambda>disk_usage.
       Inr [(''ID'', CStr (hv_id h)),
            (''Hostname'', CStr (hv_name h)),
            (''Hypervisor Type'', CStr (hv_type h)),
            (''State'', CStr (hv_state h)),
            (''Status'', CStr (hv_status h)),
            (''Physical CPUs'', CNum (PyInt (hv_vcpus h))),
            (''Physical CPUs Used'', CNum (PyInt (hv_vcpus_used h))),
            (''Physical CPU Usage (%)'', CNum (round2 physical_cpu_usage)),
            (''Allocated VCPUs'', CNum (PyInt (allocated_vcpus a))),
            (''Allocated CPU (%)'', CNum (round2 allocated_cpu_percentage)),
            (''CPU Overcommit Ratio'', CNum (round2 cpu_overcommit_ratio)),
            (''Physical RAM Total (MB)'', CNum (PyInt (hv_memory_size h))),
            (''Physical RAM Used (MB)'', CNum (PyInt (hv_memory_used h))),
            (''Physical RAM Usage (%)'', CNum (round2 physical_memory_usage)),
            (''Allocated RAM (MB)'', CNum (PyInt (allocated_memory a))),
            (''Allocated RAM (%)'', CNum (round2 allocated_memory_percentage)),
            (''Memory Overcommit Ratio'', CNum (round2 memory_overcommit_ratio)),
            (''Disk Total (GB)'', CNum (PyInt (hv_local_disk_size h))),
            (''Disk Used (GB)'', CNum (PyInt (hv_local_disk_used h))),
            (''Disk Usage (%)'', CNum disk_usage),
            (''Running VMs'', CNum (PyInt (hv_running_vms h))),
            (''Active Instances'', CNum (PyInt (int (length (instances_on_hypervisor a))))),
            (''Host IP'', CStr (hv_host_ip h)),
            (''CPU Overcommitted'', yes_no cpu_overcommit_ratio),
            (''Memory Overcommitted'', yes_no memory_overcommit_ratio)])))))))"

definition no_allocation :: allocation where
  "no_allocation =
     \<lparr>allocated_vcpus = 0, allocated_memory = 0, instances_on_hypervisor = [], warnings = []\<rparr>"

text \<open>The body of the loop \<open>for hypervisor in hypervisors\<close>, after its print.\<close>

definition hypervisor_details ::
  "conn \<Rightarrow> server list \<Rightarrow> hypervisor \<Rightarrow> event list \<times> (error + row)" where
  "hypervisor_details c all_servers h =
     (let a = scan_servers c h all_servers no_allocation in (warnings a, hypervisor_row h a))"

fun hypervisor_rows ::
  "conn \<Rightarrow> server list \<Rightarrow> hypervisor list \<Rightarrow> event list \<times> (error + row list)" where
  "hypervisor_rows c all_servers [] = ([], Inr [])"
| "hypervisor_rows c all_servers (h # rest) =
     (let line = Print (''Processing hypervisor: '' @ hv_name h) in
      case hypervisor_details c all_servers h of
        (ws, Inl e) \<Rightarrow> (line # ws, Inl e)
      | (ws, Inr r) \<Rightarrow>
          (case hypervisor_rows c all_servers rest of
             (ev, Inl e) \<Rightarrow> (line # ws @ ev, Inl e)
           | (ev, Inr rs) \<Rightarrow> (line # ws @ ev, Inr (r # rs))))"

section \<open>get\_openstack\_info\_and\_export\_csv\<close>

text \<open>
  \<open>csv.DictWriter\<close> on a non-empty list of rows: the header is the keys of the first
  row. An empty list writes nothing.
\<close>

definition write_csv :: "string \<Rightarrow> row list \<Rightarrow> string \<Rightarrow> event list" where
  "write_csv filename data done_line =
     (case data of
        [] \<Rightarrow> []
      | first # _ \<Rightarrow> [WriteCsv filename (map fst first) data, Print done_line])"

text \<open>
  The first half: the events, the raise if any, and \<open>all_servers\<close> as the second half
  finds it.
\<close>

definition instance_pass ::
  "string \<Rightarrow> conn \<Rightarrow> bool \<Rightarrow> bool \<Rightarrow> event list \<times> (error + server list)" where
  "instance_pass instance_filename c export_instances export_hypervisors =
     (if export_instances then
        (let all_servers = servers c;
             head = [Print (CHR 0x0A # ''--- Retrieving All Instance Details ---''), ListServers] in
         if all_servers \<noteq> [] then
           (case instance_rows c all_servers of
              (ev, Inl e) \<Rightarrow> (head @ ev, Inl e)
            | (ev, Inr instance_data) \<Rightarrow>
                (head @ ev @
                   write_csv instance_filename instance_data
                     (''Successfully exported instance details to '' @ instance_filename @ ''.''),
                 Inr all_servers))
         else (head @ [Print ''No instance data to export.''], Inr all_servers))
      else
        (if export_hypervisors then
           ([Print ''Instance export disabled - skipping instance data collection.'',
             Print ''Retrieving server information for hypervisor overcommit calculations...'',
             ListServers], Inr (servers c))
         else ([Print ''Instance export disabled - skipping instance data collection.''], Inr [])))"

definition hypervisor_pass ::
  "string \<Rightarrow> conn \<Rightarrow> bool \<Rightarrow> server list \<Rightarrow> event list \<times> error option" where
  "hypervisor_pass hypervisor_filename c export_hypervisors all_servers =
     (if export_hypervisors then
        (let head = [Print (CHR 0x0A # ''--- Retrieving All Hypervisor Details ---''), ListHypervisors] in
         if hypervisors c \<noteq> [] then
           (case hypervisor_rows c all_servers (hypervisors c) of
              (ev, Inl e) \<Rightarrow> (head @ ev, Some e)
            | (ev, Inr hypervisor_data) \<Rightarrow>
                (head @ ev @
                   write_csv hypervisor_filename hypervisor_data
                     (''Successfully exported hypervisor details to '' @ hypervisor_filename @ ''.''),
                 None))
         else (head @ [Print ''No hypervisor data to export.''], None))
      else ([Print ''Hypervisor export disabled - skipping hypervisor data collection.''], None))"

text \<open>
  The whole function: what it does, and the exception that escapes it, if any
  (\<open>None\<close>: it returns).
\<close>

definition get_openstack_info_and_export_csv ::
  "string \<Rightarrow> string \<Rightarrow> conn option \<Rightarrow> bool \<Rightarrow> bool \<Rightarrow> event list \<times> error option" where
  "get_openstack_info_and_export_csv instance_filename hypervisor_filename conn
       export_instances export_hypervisors =
     (case conn of
        None \<Rightarrow> ([Print ''Error: OpenStack connection not provided''], None)
      | Some c \<Rightarrow>
          if \<not> export_instances \<and> \<not> export_hypervisors then
            ([Print ''Error: At least one export option (instances or hypervisors) must be enabled''],
             None)
          else
            (case instance_pass instance_filename c export_instances export_hypervisors of
               (ev, Inl e) \<Rightarrow> (ev, Some e)
             | (ev, Inr all_servers) \<Rightarrow>
                 (case hypervisor_pass hypervisor_filename c export_hypervisors all_servers of
                    (ev', r) \<Rightarrow>
                      (ev @ [Print ''--------------------------------------------------''] @ ev', r))))"

section \<open>Example inputs\<close>

text \<open>A world with no environment variable set, no file and empty answers.\<close>

definition empty_world :: world where
  "empty_world = \<lparr>environ = (\<lambda>_. None), home = ''/root'', files = (\<lambda>_. None),
     typed = \<lparr>ans_auth_url = [], ans_username = [], ans_password = [], ans_project_name = [],
               ans_user_domain = [], ans_project_domain = [], ans_region = [], ans_interface = []\<rparr>\<rparr>"

text \<open>
  A file system with three files under the default locations of the home directory
  \<open>/home/op\<close>: one with no \<open>[openstack]\<close> section, one with a complete section
  (and an option the loader does not know), one that is not INI syntax.
\<close>

definition example_files :: "string \<Rightarrow> ini_file option" where
  "example_files p =
     (if p = ''/home/op/.config/openstack/clouds.ini'' then
        Some (Ini [(''other_section'', [(''some_key'', ''some_value'')])])
      else if p = ''/home/op/.openstack/config'' then
        Some (Ini [(''openstack'',
                    [(''auth_url'', ''https://keystone.example.com:5000/v3''),
                     (''username'', ''testuser''),
                     (''timeout'', ''30''),
                     (''password'', ''testpass''),
                     (''project_name'', ''testproject'')])])
      else if p = ''./openstack.conf'' then
        Some (Unparsable ''File contains no section headers.'')
      else None)"

text \<open>The operator of that home directory, with only \<open>OS_AUTH_URL\<close> set.\<close>

definition example_world :: world where
  "example_world =
     \<lparr>environ = (\<lambda>v. if v = ''OS_AUTH_URL'' then Some ''https://keystone.example.com:5000/v3'' else None),
      home = ''/home/op'',
      files = example_files,
      typed = \<lparr>ans_auth_url = [], ans_username = [], ans_password = [], ans_project_name = [],
                ans_user_domain = [], ans_project_domain = [], ans_region = [], ans_interface = []\<rparr>\<rparr>"

text \<open>
  The reading of the auto strategy: a default location is usable when a file exists
  there, loads, and its record validates; probing a location that is not usable
  leaves these events.
\<close>

definition usable :: "world \<Rightarrow> string \<Rightarrow> bool" where
  "usable w p =
     (files w p \<noteq> None \<and>
      (case load_config_file (files w) p of
         Some file_config \<Rightarrow> fst (validate_auth_config file_config)
       | None \<Rightarrow> False))"

definition probe_events :: "world \<Rightarrow> string \<Rightarrow> event list" where
  "probe_events w p =
     (if files w p \<noteq> None then [PathExists p, LoadConfigFile p] else [PathExists p])"

text \<open>
  The fixtures of the repository's tests: a flavor of 2 vcpus and 2048 MB, an active
  server on compute-01, a hypervisor compute-01 of 16 vcpus and 32768 MB, and a
  connection that lists the server twice.
\<close>

definition example_flavor :: flavor where
  "example_flavor = \<lparr>fl_name = ''m1.small'', fl_vcpus = Some 2, fl_ram = Some 2048, fl_disk = Some 20\<rparr>"

definition example_server :: server where
  "example_server =
     \<lparr>sv_id = ''server-123'', sv_name = ''test-server'', sv_status = ''ACTIVE'',
      sv_project_id = Some ''project-123'', sv_flavor = Ref ''flavor-123'',
      sv_image = Ref ''image-123'',
      sv_addresses = [(''private'', [\<lparr>addr = ''10.0.0.1'', ip_type = ''fixed''\<rparr>])],
      sv_attached_volumes = [],
      sv_power_state = Some (CNum (PyInt 1)), sv_vm_state = Some (CStr ''active''),
      sv_availability_zone = Some (CStr ''nova''),
      sv_launched_at = Some ''2023-01-01T12:00:00Z'',
      sv_hypervisor_hostname = Some ''compute-01'',
      sv_created_at = ''2023-01-01T12:00:00Z'', sv_metadata = ''{}''\<rparr>"

definition example_hypervisor :: hypervisor where
  "example_hypervisor =
     \<lparr>hv_id = ''hyp-123'', hv_name = ''compute-01'', hv_type = ''QEMU'', hv_state = ''up'',
      hv_status = ''enabled'', hv_vcpus = 16, hv_vcpus_used = 4, hv_memory_size = 32768,
      hv_memory_used = 8192, hv_local_disk_size = 1000, hv_local_disk_used = 250,
      hv_running_vms = 2, hv_host_ip = ''192.168.1.10''\<rparr>"

definition example_conn :: conn where
  "example_conn =
     \<lparr>servers = [example_server, example_server],
      hypervisors = [example_hypervisor],
      get_project = (\<lambda>_. Inr (Some ''test-project'')),
      get_flavor = (\<lambda>_. Inr (Some example_flavor)),
      get_image = (\<lambda>_. Inr (Some ''ubuntu-20.04'')),
      get_volume = (\<lambda>_. Inl (SDKException ''No Volume found'')),
      seconds_since = (\<lambda>_. Inr 3600)\<rparr>"

text \<open>A hypervisor that reports no capacity at all.\<close>

definition empty_hypervisor :: hypervisor where
  "empty_hypervisor = example_hypervisor\<lparr>hv_vcpus := 0, hv_memory_size := 0, hv_local_disk_size := 0\<rparr>"

text \<open>The entry of a row under a column name, when the row was built.\<close>

definition cell_of :: "string \<Rightarrow> error + row \<Rightarrow> cell option" where
  "cell_of k r = (case r of Inr entries \<Rightarrow> map_of entries k | Inl e \<Rightarrow> None)"





section \<open>Facts about dictionaries\<close>

lemma map_of_dict_set: "map_of (dict_set k v d) = (map_of d)(k \<mapsto> v)"
  by (simp add: dict_set_def update_conv')

lemma keys_dict_set: "fst ` set (dict_set k v d) = insert k (fst ` set d)"
  by (simp add: dict_set_def dom_update)

lemma dict_set_absent: "map_of d k = None \<Longrightarrow> dict_set k v d = d @ [(k, v)]"
  unfolding dict_set_def
  by (induction d) (auto split: if_splits)

lemma map_of_setdefault:
  "map_of (setdefault k v d) k' =
     (case map_of d k' of Some x \<Rightarrow> Some x | None \<Rightarrow> if k' = k then Some v else None)"
  by (auto simp: setdefault_def map_of_dict_set split: option.splits)

lemma setdefault_append:
  "setdefault k v d = d @ (if map_of d k = None then [(k, v)] else [])"
  by (auto simp: setdefault_def dict_set_absent split: option.splits)

lemma not_truthy: "(\<not> truthy x) = (x = None \<or> x = Some [])"
  by (cases x) auto

section \<open>Properties of the credential resolver\<close>

text \<open>
  C3. \<open>validate_auth_config\<close> returns the required field names that are absent or
  empty, in the declared order auth\_url, username, password, project\_name, together
  with whether that list is empty; it returns \<open>(True, [])\<close> exactly when each of the
  four is present and non-empty.
\<close>

theorem validate_auth_config_correct:
  "validate_auth_config ac =
     ([f \<leftarrow> [''auth_url'', ''username'', ''password'', ''project_name''].
          map_of ac f = None \<or> map_of ac f = Some []] = [],
      [f \<leftarrow> [''auth_url'', ''username'', ''password'', ''project_name''].
          map_of ac f = None \<or> map_of ac f = Some []])
   \<and> ((validate_auth_config ac = (True, [])) =
        ((\<exists>v. map_of ac ''auth_url'' = Some v \<and> v \<noteq> []) \<and>
         (\<exists>v. map_of ac ''username'' = Some v \<and> v \<noteq> []) \<and>
         (\<exists>v. map_of ac ''password'' = Some v \<and> v \<noteq> []) \<and>
         (\<exists>v. map_of ac ''project_name'' = Some v \<and> v \<noteq> []))
   )"
proof -
  have m: "validate_auth_config ac =
     ([f \<leftarrow> required_fields. map_of ac f = None \<or> map_of ac f = Some []] = [],
      [f \<leftarrow> required_fields. map_of ac f = None \<or> map_of ac f = Some []])"
    by (simp add: validate_auth_config_def Let_def not_truthy)
  show ?thesis
    unfolding m unfolding required_fields_def
    by (auto simp: filter_empty_conv)
qed

theorem validate_auth_config_correct_witness:
  "validate_auth_config
     [(''auth_url'', ''''), (''username'', ''testuser''), (''password'', ''testpass''),
      (''project_name'', '''')] = (False, [''auth_url'', ''project_name''])
   \<and> validate_auth_config
     [(''auth_url'', ''https://keystone.example.com:5000/v3''), (''username'', ''testuser''),
      (''password'', ''testpass''), (''project_name'', ''testproject'')] = (True, [])"
  using validate_auth_config_correct [of "[(''auth_url'', ''''), (''username'', ''testuser''), (''password'', ''testpass''),
      (''project_name'', '''')]"]
    validate_auth_config_correct [of "[(''auth_url'', ''https://keystone.example.com:5000/v3''), (''username'', ''testuser''),
      (''password'', ''testpass''), (''project_name'', ''testproject'')]"]
  by simp

lemma check_auth_config_eq:
  "check_auth_config ac =
     (if [f \<leftarrow> required_fields. map_of ac f = None \<or> map_of ac f = Some []] = []
      then Inr (apply_defaults ac)
      else Inl (ValueError (''Missing required authentication fields: '' @
                 join '', '' [f \<leftarrow> required_fields. map_of ac f = None \<or> map_of ac f = Some []])))"
  by (simp add: check_auth_config_def validate_auth_config_def Let_def not_truthy)

lemma choose_auth_config_total:
  "auth_method \<in> {''auto'', ''env'', ''interactive'', ''args''}
     \<Longrightarrow> \<exists>ev ac. choose_auth_config w auth_method config_file kwargs = (ev, Inr ac)"
  by (auto simp: choose_auth_config_def split: prod.splits)

text \<open>
  C5. Whatever the strategy, once it has produced a candidate record the resolver
  raises the validation error, whose message lists the missing required fields joined
  by a comma and a space in declared order, exactly when some required field is absent
  or empty; on a complete record it returns the record with the three defaults set.
  The strategies auto, env, interactive and args always produce a candidate.
\<close>

theorem resolve_validates_then_defaults:
  "(\<forall>ev ac. choose_auth_config w auth_method config_file kwargs = (ev, Inr ac) \<longrightarrow>
      resolve_auth_config True w auth_method config_file kwargs =
        (ev,
         if (\<exists>v. map_of ac ''auth_url'' = Some v \<and> v \<noteq> []) \<and>
            (\<exists>v. map_of ac ''username'' = Some v \<and> v \<noteq> []) \<and>
            (\<exists>v. map_of ac ''password'' = Some v \<and> v \<noteq> []) \<and>
            (\<exists>v. map_of ac ''project_name'' = Some v \<and> v \<noteq> [])
         then Inr (setdefault ''interface'' ''public''
                     (setdefault ''project_domain_name'' ''default''
                        (setdefault ''user_domain_name'' ''default'' ac)))
         else Inl (ValueError (''Missing required authentication fields: '' @
                     join '', '' [f \<leftarrow> [''auth_url'', ''username'', ''password'', ''project_name''].
                                   map_of ac f = None \<or> map_of ac f = Some []]))))
   \<and> (auth_method \<in> {''auto'', ''env'', ''interactive'', ''args''} \<longrightarrow>
        (\<exists>ev ac. choose_auth_config w auth_method config_file kwargs = (ev, Inr ac)))"
proof (intro conjI allI impI)
  fix ev ac
  assume c: "choose_auth_config w auth_method config_file kwargs = (ev, Inr ac)"
  have complete: "([f \<leftarrow> required_fields. map_of ac f = None \<or> map_of ac f = Some []] = []) =
      ((\<exists>v. map_of ac ''auth_url'' = Some v \<and> v \<noteq> []) \<and>
       (\<exists>v. map_of ac ''username'' = Some v \<and> v \<noteq> []) \<and>
       (\<exists>v. map_of ac ''password'' = Some v \<and> v \<noteq> []) \<and>
       (\<exists>v. map_of ac ''project_name'' = Some v \<and> v \<noteq> []))"
    unfolding required_fields_def by (auto simp: filter_empty_conv)
  have "resolve_auth_config True w auth_method config_file kwargs = (ev, check_auth_config ac)"
    by (simp add: resolve_auth_config_def c)
  then show "resolve_auth_config True w auth_method config_file kwargs =
        (ev,
         if (\<exists>v. map_of ac ''auth_url'' = Some v \<and> v \<noteq> []) \<and>
            (\<exists>v. map_of ac ''username'' = Some v \<and> v \<noteq> []) \<and>
            (\<exists>v. map_of ac ''password'' = Some v \<and> v \<noteq> []) \<and>
            (\<exists>v. map_of ac ''project_name'' = Some v \<and> v \<noteq> [])
         then Inr (setdefault ''interface'' ''public''
                     (setdefault ''project_domain_name'' ''default''
                        (setdefault ''user_domain_name'' ''default'' ac)))
         else Inl (ValueError (''Missing required authentication fields: '' @
                     join '', '' [f \<leftarrow> [''auth_url'', ''username'', ''password'', ''project_name''].
                                   map_of ac f = None \<or> map_of ac f = Some []])))"
    unfolding check_auth_config_eq complete
    by (simp only: required_fields_def apply_defaults_def)
next
  assume "auth_method \<in> {''auto'', ''env'', ''interactive'', ''args''}"
  then show "\<exists>ev ac. choose_auth_config w auth_method config_file kwargs = (ev, Inr ac)"
    by (rule choose_auth_config_total)
qed

theorem resolve_validates_then_defaults_witness:
  "resolve_auth_config True empty_world ''args'' None [(''auth_url'', ''https://example.com'')] =
     ([], Inl (ValueError ''Missing required authentication fields: username, password, project_name''))
   \<and> resolve_auth_config True empty_world ''args'' None
        [(''auth_url'', ''a''), (''username'', ''u''), (''password'', ''p''), (''project_name'', ''n'')] =
     ([], Inr [(''auth_url'', ''a''), (''username'', ''u''), (''password'', ''p''), (''project_name'', ''n''),
               (''user_domain_name'', ''default''), (''project_domain_name'', ''default''),
               (''interface'', ''public'')])"
proof -
  have c1: "choose_auth_config empty_world ''args'' None [(''auth_url'', ''https://example.com'')] =
              ([], Inr [(''auth_url'', ''https://example.com'')])"
    by (simp add: choose_auth_config_def)
  have c2: "choose_auth_config empty_world ''args'' None
              [(''auth_url'', ''a''), (''username'', ''u''), (''password'', ''p''), (''project_name'', ''n'')] =
              ([], Inr [(''auth_url'', ''a''), (''username'', ''u''), (''password'', ''p''), (''project_name'', ''n'')])"
    by (simp add: choose_auth_config_def)
  from resolve_validates_then_defaults [of empty_world "''args''" None "[(''auth_url'', ''https://example.com'')]"] c1
  have r1: "resolve_auth_config True empty_world ''args'' None [(''auth_url'', ''https://example.com'')] =
     ([], Inl (ValueError ''Missing required authentication fields: username, password, project_name''))"
    by simp
  from resolve_validates_then_defaults [of empty_world "''args''" None
         "[(''auth_url'', ''a''), (''username'', ''u''), (''password'', ''p''), (''project_name'', ''n'')]"] c2
  have r2: "resolve_auth_config True empty_world ''args'' None
        [(''auth_url'', ''a''), (''username'', ''u''), (''password'', ''p''), (''project_name'', ''n'')] =
     ([], Inr [(''auth_url'', ''a''), (''username'', ''u''), (''password'', ''p''), (''project_name'', ''n''),
               (''user_domain_name'', ''default''), (''project_domain_name'', ''default''),
               (''interface'', ''public'')])"
    by (simp add: setdefault_def dict_set_def)
  from r1 r2 show ?thesis by simp
qed

text \<open>
  C10. The defaults applied after validation never overwrite: every key the record
  already holds keeps its value (an empty one too), only the absent ones among
  user\_domain\_name, project\_domain\_name, interface are added, with the values
  default, default, public, and the record's entries stay as they were, in place.
\<close>

theorem apply_defaults_frame:
  "map_of (apply_defaults ac) k =
     (case map_of ac k of
        Some v \<Rightarrow> Some v
      | None \<Rightarrow> map_of [(''user_domain_name'', ''default''),
                         (''project_domain_name'', ''default''),
                         (''interface'', ''public'')] k)
   \<and> (\<exists>added. apply_defaults ac = ac @ added \<and>
         fst ` set added = {''user_domain_name'', ''project_domain_name'', ''interface''} - fst ` set ac)"
proof
  show "map_of (apply_defaults ac) k =
     (case map_of ac k of
        Some v \<Rightarrow> Some v
      | None \<Rightarrow> map_of [(''user_domain_name'', ''default''),
                         (''project_domain_name'', ''default''),
                         (''interface'', ''public'')] k)"
    by (simp add: apply_defaults_def map_of_setdefault split: option.splits)
next
  let ?a = "if map_of ac ''user_domain_name'' = None then [(''user_domain_name'', ''default'')] else []"
  let ?b = "if map_of ac ''project_domain_name'' = None then [(''project_domain_name'', ''default'')] else []"
  let ?c = "if map_of ac ''interface'' = None then [(''interface'', ''public'')] else []"
  have eq: "apply_defaults ac = ac @ (?a @ ?b @ ?c)"
    by (simp add: apply_defaults_def setdefault_append map_of_setdefault split: option.splits)
  have keys: "fst ` set (?a @ ?b @ ?c) =
     {''user_domain_name'', ''project_domain_name'', ''interface''} - fst ` set ac"
    by (auto simp: map_of_eq_None_iff image_iff split: if_splits)
  show "\<exists>added. apply_defaults ac = ac @ added \<and>
         fst ` set added = {''user_domain_name'', ''project_domain_name'', ''interface''} - fst ` set ac"
    using eq keys by blast
qed

theorem apply_defaults_frame_witness:
  "apply_defaults [(''auth_url'', ''u''), (''interface'', ''internal''), (''user_domain_name'', '''')]
     = [(''auth_url'', ''u''), (''interface'', ''internal''), (''user_domain_name'', ''''),
        (''project_domain_name'', ''default'')]
   \<and> map_of (apply_defaults [(''auth_url'', ''u''), (''interface'', ''internal''), (''user_domain_name'', '''')])
        ''interface'' = Some ''internal''"
  using apply_defaults_frame [of "[(''auth_url'', ''u''), (''interface'', ''internal''), (''user_domain_name'', '''')]" "''interface''"]
  by (simp add: apply_defaults_def setdefault_def dict_set_def)

lemma strip_Nil: "strip [] = []"
  by (simp add: strip_def)

lemma gai_eq:
  "get_auth_interactive a =
     [(''auth_url'', strip (ans_auth_url a)),
      (''username'', strip (ans_username a)),
      (''password'', ans_password a),
      (''project_name'', strip (ans_project_name a)),
      (''user_domain_name'', if strip (ans_user_domain a) \<noteq> [] then strip (ans_user_domain a) else ''default''),
      (''project_domain_name'', if strip (ans_project_domain a) \<noteq> [] then strip (ans_project_domain a) else ''default'')]
     @ (if strip (ans_region a) \<noteq> [] then [(''region_name'', strip (ans_region a))] else [])
     @ [(''interface'', if strip (ans_interface a) \<noteq> [] then strip (ans_interface a) else ''public'')]"
  unfolding get_auth_interactive_def Let_def dict_set_def
  by (simp split: if_splits)

text \<open>
  C8. In interactive resolution, empty input for user\_domain\_name,
  project\_domain\_name and interface gives the values default, default and public,
  and empty input for region\_name gives a record with no region\_name key.
\<close>

theorem get_auth_interactive_defaults:
  "(ans_user_domain a = [] \<longrightarrow>
      map_of (get_auth_interactive a) ''user_domain_name'' = Some ''default'')
   \<and> (ans_project_domain a = [] \<longrightarrow>
      map_of (get_auth_interactive a) ''project_domain_name'' = Some ''default'')
   \<and> (ans_interface a = [] \<longrightarrow>
      map_of (get_auth_interactive a) ''interface'' = Some ''public'')
   \<and> (ans_region a = [] \<longrightarrow>
      ''region_name'' \<notin> fst ` set (get_auth_interactive a))"
  unfolding gai_eq by (simp add: strip_Nil)

theorem get_auth_interactive_defaults_witness:
  "get_auth_interactive
     \<lparr>ans_auth_url = ''https://keystone.example.com:5000/v3'', ans_username = ''testuser'',
      ans_password = ''testpass'', ans_project_name = ''testproject'', ans_user_domain = [],
      ans_project_domain = [], ans_region = [], ans_interface = []\<rparr>
   = [(''auth_url'', ''https://keystone.example.com:5000/v3''), (''username'', ''testuser''),
      (''password'', ''testpass''), (''project_name'', ''testproject''),
      (''user_domain_name'', ''default''), (''project_domain_name'', ''default''),
      (''interface'', ''public'')]"
  using get_auth_interactive_defaults [of "\<lparr>ans_auth_url = ''https://keystone.example.com:5000/v3'', ans_username = ''testuser'',
      ans_password = ''testpass'', ans_project_name = ''testproject'', ans_user_domain = [],
      ans_project_domain = [], ans_region = [], ans_interface = []\<rparr>"]
  unfolding gai_eq by (simp add: strip_def is_space_def)

section \<open>Properties of the file loader\<close>

lemma example_second_loads: "load_config_file example_files ''/home/op/.openstack/config'' =
      Some [(''auth_url'', ''https://keystone.example.com:5000/v3''), (''username'', ''testuser''),
            (''password'', ''testpass''), (''project_name'', ''testproject'')]"
  by (simp add: load_config_file_def load_config_file_try_def config_read_def example_files_def
        config_mapping_def dict_set_def)





section \<open>Properties of the auto strategy\<close>

lemma valid_nonempty: "fst (validate_auth_config fc) \<Longrightarrow> fc \<noteq> []"
  by (auto simp: validate_auth_config_def required_fields_def)

lemma try_config_paths_find:
  "try_config_paths w ps =
     (case find (usable w) ps of
        Some p \<Rightarrow>
          (concat (map (probe_events w) (takeWhile (\<lambda>q. \<not> usable w q) ps)) @
             [PathExists p, LoadConfigFile p, Print (''Using configuration from: '' @ p)],
           load_config_file (files w) p)
      | None \<Rightarrow> (concat (map (probe_events w) ps), None))"
proof (induction ps)
  case Nil
  then show ?case by simp
next
  case (Cons p ps)
  show ?case
  proof (cases "usable w p")
    case True
    then obtain fc where fc: "files w p \<noteq> None" "load_config_file (files w) p = Some fc"
        "fst (validate_auth_config fc)"
      by (auto simp: usable_def split: option.splits)
    with True valid_nonempty [OF fc(3)] show ?thesis by simp
  next
    case False
    then show ?thesis
      using Cons.IH valid_nonempty
      by (auto simp: usable_def probe_events_def split: option.splits prod.splits)
  qed
qed

text \<open>
  C4. The auto strategy reads the environment first. A validating environment record
  is used at once: no file is probed and nothing is prompted. Otherwise the three
  default locations are probed in their fixed order up to the first usable one (a
  file that exists, loads and validates), whose record is used without prompting;
  when none is usable all three are probed and the interactive prompts give the
  record.
\<close>

theorem auto_resolution_order:
  "(fst (validate_auth_config (get_auth_from_environment (environ w))) \<longrightarrow>
      auto_auth w = ([ReadEnvironment], get_auth_from_environment (environ w)))
   \<and> (\<not> fst (validate_auth_config (get_auth_from_environment (environ w))) \<longrightarrow>
        (\<forall>p. find (usable w) (default_config_paths w) = Some p \<longrightarrow>
           (\<exists>file_config.
              load_config_file (files w) p = Some file_config \<and>
              fst (validate_auth_config file_config) \<and>
              auto_auth w =
                (ReadEnvironment #
                   concat (map (probe_events w)
                             (takeWhile (\<lambda>q. \<not> usable w q) (default_config_paths w))) @
                   [PathExists p, LoadConfigFile p, Print (''Using configuration from: '' @ p)],
                 file_config))))
   \<and> (\<not> fst (validate_auth_config (get_auth_from_environment (environ w))) \<and>
        find (usable w) (default_config_paths w) = None \<longrightarrow>
          auto_auth w =
            (ReadEnvironment # concat (map (probe_events w) (default_config_paths w)) @
               [Print ''No valid authentication found in environment or config files.'', Prompt],
             get_auth_interactive (typed w)))
   \<and> default_config_paths w =
        [home w @ ''/.config/openstack/clouds.ini'', home w @ ''/.openstack/config'',
         ''./openstack.conf'']"
proof (intro conjI allI impI)
  assume "fst (validate_auth_config (get_auth_from_environment (environ w)))"
  then show "auto_auth w = ([ReadEnvironment], get_auth_from_environment (environ w))"
    by (simp add: auto_auth_def)
next
  fix p
  assume inv: "\<not> fst (validate_auth_config (get_auth_from_environment (environ w)))"
    and f: "find (usable w) (default_config_paths w) = Some p"
  from f have "usable w p" by (auto simp: find_Some_iff)
  then obtain fc where fc: "load_config_file (files w) p = Some fc" "fst (validate_auth_config fc)"
    by (auto simp: usable_def split: option.splits)
  have "auto_auth w =
          (ReadEnvironment #
             concat (map (probe_events w)
                       (takeWhile (\<lambda>q. \<not> usable w q) (default_config_paths w))) @
             [PathExists p, LoadConfigFile p, Print (''Using configuration from: '' @ p)],
           fc)"
    using inv fc by (simp add: auto_auth_def try_config_paths_find f)
  with fc show "\<exists>file_config.
              load_config_file (files w) p = Some file_config \<and>
              fst (validate_auth_config file_config) \<and>
              auto_auth w =
                (ReadEnvironment #
                   concat (map (probe_events w)
                             (takeWhile (\<lambda>q. \<not> usable w q) (default_config_paths w))) @
                   [PathExists p, LoadConfigFile p, Print (''Using configuration from: '' @ p)],
                 file_config)"
    by blast
next
  assume "\<not> fst (validate_auth_config (get_auth_from_environment (environ w))) \<and>
        find (usable w) (default_config_paths w) = None"
  then show "auto_auth w =
            (ReadEnvironment # concat (map (probe_events w) (default_config_paths w)) @
               [Print ''No valid authentication found in environment or config files.'', Prompt],
             get_auth_interactive (typed w))"
    by (simp add: auto_auth_def try_config_paths_find)
next
  show "default_config_paths w =
        [home w @ ''/.config/openstack/clouds.ini'', home w @ ''/.openstack/config'',
         ''./openstack.conf'']"
    by (simp add: default_config_paths_def expanduser_def)
qed

lemma example_env:
  "get_auth_from_environment (environ example_world) =
     [(''auth_url'', ''https://keystone.example.com:5000/v3'')]"
  by (simp add: get_auth_from_environment_def env_mapping_def example_world_def dict_set_def)

lemma example_env_invalid:
  "\<not> fst (validate_auth_config (get_auth_from_environment (environ example_world)))"
  unfolding example_env by (simp add: validate_auth_config_def required_fields_def)

lemma example_paths:
  "default_config_paths example_world =
     [''/home/op/.config/openstack/clouds.ini'', ''/home/op/.openstack/config'', ''./openstack.conf'']"
  by (simp add: default_config_paths_def expanduser_def example_world_def)

lemma example_first_unusable: "\<not> usable example_world ''/home/op/.config/openstack/clouds.ini''"
  by (simp add: usable_def example_world_def example_files_def load_config_file_def
        load_config_file_try_def config_read_def)

lemma example_second_usable: "usable example_world ''/home/op/.openstack/config''"
  by (simp add: usable_def example_world_def example_second_loads validate_auth_config_def required_fields_def)
     (simp add: example_files_def)

lemma example_first_exists:
  "probe_events example_world ''/home/op/.config/openstack/clouds.ini'' =
     [PathExists ''/home/op/.config/openstack/clouds.ini'',
      LoadConfigFile ''/home/op/.config/openstack/clouds.ini'']"
  by (simp add: probe_events_def example_world_def example_files_def)

theorem auto_resolution_order_witness:
  "auto_auth example_world =
     ([ReadEnvironment,
       PathExists ''/home/op/.config/openstack/clouds.ini'',
       LoadConfigFile ''/home/op/.config/openstack/clouds.ini'',
       PathExists ''/home/op/.openstack/config'',
       LoadConfigFile ''/home/op/.openstack/config'',
       Print ''Using configuration from: /home/op/.openstack/config''],
      [(''auth_url'', ''https://keystone.example.com:5000/v3''), (''username'', ''testuser''),
       (''password'', ''testpass''), (''project_name'', ''testproject'')])"
proof -
  have f: "find (usable example_world) (default_config_paths example_world) =
             Some ''/home/op/.openstack/config''"
    unfolding example_paths using example_first_unusable example_second_usable by simp
  have t: "takeWhile (\<lambda>q. \<not> usable example_world q) (default_config_paths example_world) =
             [''/home/op/.config/openstack/clouds.ini'']"
    unfolding example_paths using example_first_unusable example_second_usable by simp
  have l: "load_config_file (files example_world) ''/home/op/.openstack/config'' =
      Some [(''auth_url'', ''https://keystone.example.com:5000/v3''), (''username'', ''testuser''),
            (''password'', ''testpass''), (''project_name'', ''testproject'')]"
    using example_second_loads by (simp add: example_world_def)
  from auto_resolution_order [of example_world] example_env_invalid f
  obtain fc where fc: "load_config_file (files example_world) ''/home/op/.openstack/config'' = Some fc"
    "auto_auth example_world =
       (ReadEnvironment #
          concat (map (probe_events example_world)
                    (takeWhile (\<lambda>q. \<not> usable example_world q) (default_config_paths example_world))) @
          [PathExists ''/home/op/.openstack/config'', LoadConfigFile ''/home/op/.openstack/config'',
           Print (''Using configuration from: '' @ ''/home/op/.openstack/config'')],
        fc)"
    by blast
  from fc(1) l have "fc = [(''auth_url'', ''https://keystone.example.com:5000/v3''), (''username'', ''testuser''),
            (''password'', ''testpass''), (''project_name'', ''testproject'')]"
    by simp
  with fc(2) show ?thesis
    unfolding t by (simp add: example_first_exists)
qed

section \<open>Properties of the report builder\<close>

text \<open>
  With a connection and a pass enabled the builder does list the servers; the
  precondition errors below are the only runs that fetch nothing.
\<close>

lemma instance_pass_lists:
  "export_instances \<or> export_hypervisors \<Longrightarrow>
     ListServers \<in> set (fst (instance_pass instance_filename c export_instances export_hypervisors))"
  by (auto simp: instance_pass_def Let_def split: prod.splits sum.splits)

lemma enabled_pass_fetches:
  "export_instances \<or> export_hypervisors \<Longrightarrow>
     ListServers \<in> set (fst (get_openstack_info_and_export_csv instance_filename hypervisor_filename
                               (Some c) export_instances export_hypervisors))"
  using instance_pass_lists [of export_instances export_hypervisors instance_filename c]
  by (auto simp: get_openstack_info_and_export_csv_def split: prod.splits sum.splits)

text \<open>
  C9. Called with no connection, or with both passes disabled, the report builder
  prints the error and returns: it lists nothing, writes no file and raises nothing.
\<close>

theorem precondition_errors_return:
  "get_openstack_info_and_export_csv instance_filename hypervisor_filename None
       export_instances export_hypervisors =
     ([Print ''Error: OpenStack connection not provided''], None)
   \<and> get_openstack_info_and_export_csv instance_filename hypervisor_filename (Some c) False False =
     ([Print ''Error: At least one export option (instances or hypervisors) must be enabled''], None)"
  by (simp add: get_openstack_info_and_export_csv_def)

theorem precondition_errors_return_witness:
  "fst (get_openstack_info_and_export_csv ''openstack_instances.csv'' ''openstack_hypervisors.csv''
          (None :: conn option) True True) = [Print ''Error: OpenStack connection not provided'']
   \<and> snd (get_openstack_info_and_export_csv ''openstack_instances.csv'' ''openstack_hypervisors.csv''
          (None :: conn option) True True) = None"
  using precondition_errors_return [of "''openstack_instances.csv''" "''openstack_hypervisors.csv''" True True]
  by simp

section \<open>Properties of the hypervisor pass\<close>

lemma guarded_ratio_eq:
  "guarded_ratio a b = Inr (if b > 0 then PyFloat (of_int a / of_int b) else PyInt 0)"
  by (simp add: guarded_ratio_def truediv_def bind_err_def)

lemma guarded_percentage_eq:
  "guarded_percentage a b = Inr (if b > 0 then PyFloat (of_int a / of_int b * 100) else PyInt 0)"
  by (simp add: guarded_percentage_def truediv_def bind_err_def)

lemma guarded_rounded_percentage_eq:
  "guarded_rounded_percentage a b =
     Inr (if b > 0 then round2 (PyFloat (of_int a / of_int b * 100)) else PyInt 0)"
  by (simp add: guarded_rounded_percentage_def truediv_def bind_err_def)

lemma bind_err_Inr: "bind_err (Inr x) f = f x"
  by (simp add: bind_err_def)

lemma hypervisor_row_eq:
  "hypervisor_row h a =
     Inr [(''ID'', CStr (hv_id h)),
            (''Hostname'', CStr (hv_name h)),
            (''Hypervisor Type'', CStr (hv_type h)),
            (''State'', CStr (hv_state h)),
            (''Status'', CStr (hv_status h)),
            (''Physical CPUs'', CNum (PyInt (hv_vcpus h))),
            (''Physical CPUs Used'', CNum (PyInt (hv_vcpus_used h))),
            (''Physical CPU Usage (%)'', CNum (round2 (if hv_vcpus h > 0 then PyFloat (of_int (hv_vcpus_used h) / of_int (hv_vcpus h) * 100) else PyInt 0))),
            (''Allocated VCPUs'', CNum (PyInt (allocated_vcpus a))),
            (''Allocated CPU (%)'', CNum (round2 (if hv_vcpus h > 0 then PyFloat (of_int (allocated_vcpus a) / of_int (hv_vcpus h) * 100) else PyInt 0))),
            (''CPU Overcommit Ratio'', CNum (round2 (if hv_vcpus h > 0 then PyFloat (of_int (allocated_vcpus a) / of_int (hv_vcpus h)) else PyInt 0))),
            (''Physical RAM Total (MB)'', CNum (PyInt (hv_memory_size h))),
            (''Physical RAM Used (MB)'', CNum (PyInt (hv_memory_used h))),
            (''Physical RAM Usage (%)'', CNum (round2 (if hv_memory_size h > 0 then PyFloat (of_int (hv_memory_used h) / of_int (hv_memory_size h) * 100) else PyInt 0))),
            (''Allocated RAM (MB)'', CNum (PyInt (allocated_memory a))),
            (''Allocated RAM (%)'', CNum (round2 (if hv_memory_size h > 0 then PyFloat (of_int (allocated_memory a) / of_int (hv_memory_size h) * 100) else PyInt 0))),
            (''Memory Overcommit Ratio'', CNum (round2 (if hv_memory_size h > 0 then PyFloat (of_int (allocated_memory a) / of_int (hv_memory_size h)) else PyInt 0))),
            (''Disk Total (GB)'', CNum (PyInt (hv_local_disk_size h))),
            (''Disk Used (GB)'', CNum (PyInt (hv_local_disk_used h))),
            (''Disk Usage (%)'', CNum (if hv_local_disk_size h > 0 then round2 (PyFloat (of_int (hv_local_disk_used h) / of_int (hv_local_disk_size h) * 100)) else PyInt 0)),
            (''Running VMs'', CNum (PyInt (hv_running_vms h))),
            (''Active Instances'', CNum (PyInt (int (length (instances_on_hypervisor a))))),
            (''Host IP'', CStr (hv_host_ip h)),
            (''CPU Overcommitted'', yes_no (if hv_vcpus h > 0 then PyFloat (of_int (allocated_vcpus a) / of_int (hv_vcpus h)) else PyInt 0)),
            (''Memory Overcommitted'', yes_no (if hv_memory_size h > 0 then PyFloat (of_int (allocated_memory a) / of_int (hv_memory_size h)) else PyInt 0))]"
  unfolding hypervisor_row_def guarded_ratio_eq guarded_percentage_eq guarded_rounded_percentage_eq
    bind_err_Inr
  by (rule refl)

lemma hypervisor_rows_return:
  "\<exists>rows. snd (hypervisor_rows c all_servers hs) = Inr rows"
proof (induction hs)
  case Nil
  then show ?case by simp
next
  case (Cons h hs)
  then obtain rows where r: "snd (hypervisor_rows c all_servers hs) = Inr rows" by blast
  then show ?case
    by (cases "hypervisor_rows c all_servers hs")
       (simp add: hypervisor_details_def hypervisor_row_eq Let_def)
qed

lemma hypervisor_pass_returns:
  "snd (hypervisor_pass hypervisor_filename c export_hypervisors all_servers) = None"
proof -
  obtain rows where "snd (hypervisor_rows c all_servers (hypervisors c)) = Inr rows"
    using hypervisor_rows_return by blast
  then show ?thesis
    by (cases "hypervisor_rows c all_servers (hypervisors c)")
       (simp add: hypervisor_pass_def Let_def)
qed

text \<open>
  C2. The row of a hypervisor is always built, and the hypervisor pass never raises:
  each division stands under its guard \<open>capacity > 0\<close>. Where the capacity of a
  dimension (vcpus, memory\_size, local\_disk\_size) is 0, every percentage and ratio
  of that dimension in the row is 0.
\<close>

theorem zero_capacity_gives_zero:
  "(\<exists>entries. snd (hypervisor_details c all_servers h) = Inr entries)
   \<and> snd (hypervisor_pass hypervisor_filename c export_hypervisors all_servers) = None
   \<and> (hv_vcpus h = 0 \<longrightarrow>
        cell_of ''Physical CPU Usage (%)'' (snd (hypervisor_details c all_servers h)) = Some (CNum (PyInt 0)) \<and>
        cell_of ''Allocated CPU (%)'' (snd (hypervisor_details c all_servers h)) = Some (CNum (PyInt 0)) \<and>
        cell_of ''CPU Overcommit Ratio'' (snd (hypervisor_details c all_servers h)) = Some (CNum (PyInt 0)))
   \<and> (hv_memory_size h = 0 \<longrightarrow>
        cell_of ''Physical RAM Usage (%)'' (snd (hypervisor_details c all_servers h)) = Some (CNum (PyInt 0)) \<and>
        cell_of ''Allocated RAM (%)'' (snd (hypervisor_details c all_servers h)) = Some (CNum (PyInt 0)) \<and>
        cell_of ''Memory Overcommit Ratio'' (snd (hypervisor_details c all_servers h)) = Some (CNum (PyInt 0)))
   \<and> (hv_local_disk_size h = 0 \<longrightarrow>
        cell_of ''Disk Usage (%)'' (snd (hypervisor_details c all_servers h)) = Some (CNum (PyInt 0)))"
proof (intro conjI impI)
  show "\<exists>entries. snd (hypervisor_details c all_servers h) = Inr entries"
    by (simp add: hypervisor_details_def Let_def hypervisor_row_eq)
  show "snd (hypervisor_pass hypervisor_filename c export_hypervisors all_servers) = None"
    by (rule hypervisor_pass_returns)
next
  assume z: "hv_vcpus h = 0"
  show "cell_of ''Physical CPU Usage (%)'' (snd (hypervisor_details c all_servers h)) = Some (CNum (PyInt 0))"
    using z by (simp add: hypervisor_details_def Let_def hypervisor_row_eq cell_of_def)
  show "cell_of ''Allocated CPU (%)'' (snd (hypervisor_details c all_servers h)) = Some (CNum (PyInt 0))"
    using z by (simp add: hypervisor_details_def Let_def hypervisor_row_eq cell_of_def)
  show "cell_of ''CPU Overcommit Ratio'' (snd (hypervisor_details c all_servers h)) = Some (CNum (PyInt 0))"
    using z by (simp add: hypervisor_details_def Let_def hypervisor_row_eq cell_of_def)
next
  assume z: "hv_memory_size h = 0"
  show "cell_of ''Physical RAM Usage (%)'' (snd (hypervisor_details c all_servers h)) = Some (CNum (PyInt 0))"
    using z by (simp add: hypervisor_details_def Let_def hypervisor_row_eq cell_of_def)
  show "cell_of ''Allocated RAM (%)'' (snd (hypervisor_details c all_servers h)) = Some (CNum (PyInt 0))"
    using z by (simp add: hypervisor_details_def Let_def hypervisor_row_eq cell_of_def)
  show "cell_of ''Memory Overcommit Ratio'' (snd (hypervisor_details c all_servers h)) = Some (CNum (PyInt 0))"
    using z by (simp add: hypervisor_details_def Let_def hypervisor_row_eq cell_of_def)
next
  assume z: "hv_local_disk_size h = 0"
  show "cell_of ''Disk Usage (%)'' (snd (hypervisor_details c all_servers h)) = Some (CNum (PyInt 0))"
    using z by (simp add: hypervisor_details_def Let_def hypervisor_row_eq cell_of_def)
qed


theorem zero_capacity_gives_zero_witness:
  "cell_of ''Physical CPU Usage (%)''
     (snd (hypervisor_details example_conn (servers example_conn) empty_hypervisor)) = Some (CNum (PyInt 0))
   \<and> cell_of ''Allocated CPU (%)''
     (snd (hypervisor_details example_conn (servers example_conn) empty_hypervisor)) = Some (CNum (PyInt 0))
   \<and> cell_of ''CPU Overcommit Ratio''
     (snd (hypervisor_details example_conn (servers example_conn) empty_hypervisor)) = Some (CNum (PyInt 0))
   \<and> cell_of ''Physical RAM Usage (%)''
     (snd (hypervisor_details example_conn (servers example_conn) empty_hypervisor)) = Some (CNum (PyInt 0))
   \<and> cell_of ''Allocated RAM (%)''
     (snd (hypervisor_details example_conn (servers example_conn) empty_hypervisor)) = Some (CNum (PyInt 0))
   \<and> cell_of ''Memory Overcommit Ratio''
     (snd (hypervisor_details example_conn (servers example_conn) empty_hypervisor)) = Some (CNum (PyInt 0))
   \<and> cell_of ''Disk Usage (%)''
     (snd (hypervisor_details example_conn (servers example_conn) empty_hypervisor)) = Some (CNum (PyInt 0))"
proof -
  have z: "hv_vcpus empty_hypervisor = 0" "hv_memory_size empty_hypervisor = 0"
    "hv_local_disk_size empty_hypervisor = 0"
    by (simp_all add: empty_hypervisor_def)
  from zero_capacity_gives_zero [of example_conn "servers example_conn" empty_hypervisor] z
  show ?thesis by blast
qed

section \<open>The allocation figures of a hypervisor\<close>










section \<open>The Public IP entry of an instance row\<close>

lemma public_ip_no_entries: "public_ip [] = Inr ''N/A''"
  by (simp add: public_ip_def)

lemma public_ip_first_only: "public_ip (first # others) = public_ip [first]"
  by (simp add: public_ip_def)

text \<open>
  Where neither the network name nor the address holds a colon, the address holds
  no parenthesis and the type marker contains \<open>floating\<close>, the entry is the address,
  stripped.
\<close>

lemma split_char_head:
  "split_char c s = takeWhile (\<lambda>x. x \<noteq> c) s # tl (split_char c s)"
  by (induction s) (auto split: list.splits)

lemma split_char_at_first:
  "c \<notin> set a \<Longrightarrow> split_char c (a @ c # b) = a # split_char c b"
  by (induction a) (auto split: list.splits)

lemma contains_iff: "contains sub s = (\<exists>ps ss. s = ps @ sub @ ss)"
proof (induction s)
  case Nil
  then show ?case by auto
next
  case (Cons x xs)
  have "(take (length sub) (x # xs) = sub) = (\<exists>ss. x # xs = sub @ ss)"
    by (metis append_eq_conv_conj)
  moreover have "(\<exists>ps ss. x # xs = ps @ sub @ ss) =
      ((\<exists>ss. x # xs = sub @ ss) \<or> (\<exists>ps ss. xs = ps @ sub @ ss))"
  proof
    assume "\<exists>ps ss. x # xs = ps @ sub @ ss"
    then obtain ps ss where e: "x # xs = ps @ sub @ ss" by blast
    show "(\<exists>ss. x # xs = sub @ ss) \<or> (\<exists>ps ss. xs = ps @ sub @ ss)"
    proof (cases ps)
      case Nil
      with e show ?thesis by auto
    next
      case (Cons p ps')
      with e have "xs = ps' @ sub @ ss" by simp
      then show ?thesis by blast
    qed
  next
    assume "(\<exists>ss. x # xs = sub @ ss) \<or> (\<exists>ps ss. xs = ps @ sub @ ss)"
    then show "\<exists>ps ss. x # xs = ps @ sub @ ss"
    proof
      assume "\<exists>ss. x # xs = sub @ ss"
      then obtain ss where "x # xs = [] @ sub @ ss" by auto
      then show ?thesis by blast
    next
      assume "\<exists>ps ss. xs = ps @ sub @ ss"
      then obtain ps ss where "x # xs = (x # ps) @ sub @ ss" by auto
      then show ?thesis by blast
    qed
  qed
  ultimately show ?case using Cons.IH by simp
qed

lemma is_space_space: "is_space CHR '' ''"
  by (simp add: is_space_def)

lemma strip_trailing_space: "strip (a @ '' '') = strip a"
proof (cases "dropWhile is_space a = []")
  case True
  then have "\<forall>x\<in>set (a @ '' ''). is_space x"
    by (simp add: is_space_space)
  then have e: "dropWhile is_space (a @ '' '') = []"
    by (simp only: dropWhile_eq_Nil_conv)
  show ?thesis unfolding strip_def e True by (rule refl)
next
  case False
  then have "\<exists>x\<in>set a. \<not> is_space x" by simp
  then have "dropWhile is_space (a @ '' '') = dropWhile is_space a @ '' ''"
    by auto
  then show ?thesis by (simp add: strip_def is_space_space)
qed

lemma public_ip_of_plain_floating_entry:
  assumes "CHR '':'' \<notin> set name" "CHR '':'' \<notin> set a" "CHR ''('' \<notin> set a"
    and "contains ''floating'' ty"
  shows "public_ip ((name @ '':'' @ a @ '' ('' @ ty @ '')'') # others) = Inr (strip a)"
proof -
  let ?e = "name @ '':'' @ a @ '' ('' @ ty @ '')''"
  let ?r = "a @ '' ('' @ ty @ '')''"
  from assms(4) obtain ps ss where "ty = ps @ ''floating'' @ ss"
    by (auto simp: contains_iff)
  then have "?e = (name @ '':'' @ a @ '' ('' @ ps) @ ''floating'' @ (ss @ '')'')" by simp
  then have f: "contains ''floating'' ?e" unfolding contains_iff by blast
  have s1: "split_char CHR '':'' ?e = name # split_char CHR '':'' ?r"
    using split_char_at_first [OF assms(1), of ?r] by simp
  have tw: "takeWhile (\<lambda>x. x \<noteq> CHR '':'') ?r =
              a @ '' ('' @ takeWhile (\<lambda>x. x \<noteq> CHR '':'') (ty @ '')'')"
  proof -
    have "takeWhile (\<lambda>x. x \<noteq> CHR '':'') (a @ ('' ('' @ ty @ '')'')) =
            a @ takeWhile (\<lambda>x. x \<noteq> CHR '':'') ('' ('' @ ty @ '')'')"
      using assms(2) by (intro takeWhile_append2) auto
    then show ?thesis by simp
  qed
  obtain second others' where s2: "split_char CHR '':'' ?r = second # others'"
    and sec: "second = a @ '' ('' @ takeWhile (\<lambda>x. x \<noteq> CHR '':'') (ty @ '')'')"
    using split_char_head [of "CHR '':''" ?r] tw by metis
  have s3: "split_char CHR ''('' second =
      (a @ '' '') # split_char CHR ''('' (takeWhile (\<lambda>x. x \<noteq> CHR '':'') (ty @ '')''))"
    using split_char_at_first [of "CHR ''(''" "a @ '' ''"] assms(3) by (simp add: sec)
  have "public_ip (?e # others) = Inr (strip (a @ '' ''))"
    unfolding public_ip_def list.case using f by (simp only: if_True s1 s2 s3 list.case)
  then show ?thesis by (simp only: strip_trailing_space)
qed


lemma example_lookups:
  "sv_project_id example_server = Some ''project-123''"
  "sv_flavor example_server = Ref ''flavor-123''"
  "sv_image example_server = Ref ''image-123''"
  "sv_status example_server = ''ACTIVE''"
  "sv_launched_at example_server = Some ''2023-01-01T12:00:00Z''"
  "get_project example_conn = (\<lambda>_. Inr (Some ''test-project''))"
  "get_flavor example_conn = (\<lambda>_. Inr (Some example_flavor))"
  "get_image example_conn = (\<lambda>_. Inr (Some ''ubuntu-20.04''))"
  "seconds_since example_conn = (\<lambda>_. Inr 3600)"
  by (simp_all add: example_server_def example_conn_def)

lemma public_ip_entry:
  "cell_of ''Public IP'' (instance_details example_conn (example_server\<lparr>sv_addresses := nets\<rparr>)) =
     (case public_ip (network_ips (example_server\<lparr>sv_addresses := nets\<rparr>)) of
        Inr p \<Rightarrow> Some (CStr p) | Inl e \<Rightarrow> None)"
  by (simp add: instance_details_def example_lookups lookup_ref_def uptime_seconds_def
        bind_err_def cell_of_def split: sum.splits)

lemma public_ip_examples:
  "public_ip [''ext:net:203.0.113.7 (floating)''] = Inr ''net''"
  "public_ip [''floating-net:10.0.0.5 (fixed)''] = Inr ''10.0.0.5''"
  by code_simp+

text \<open>
  C7. The Public IP entry is read back from the first joined string
  \<open>network:address (type)\<close>, not from the address and the type marker themselves. A
  floating address 203.0.113.7 on a network named \<open>ext:net\<close> gives the entry \<open>net\<close>,
  and a fixed address 10.0.0.5 on a network named \<open>floating-net\<close> gives the entry
  10.0.0.5, where the address portion of an entry of floating type, and \<open>N/A\<close>
  otherwise, would be 203.0.113.7 and \<open>N/A\<close>.
\<close>

theorem public_ip_reads_back_the_joined_entry:
  "cell_of ''Public IP''
     (instance_details example_conn
        (example_server\<lparr>sv_addresses :=
           [(''ext:net'', [\<lparr>addr = ''203.0.113.7'', ip_type = ''floating''\<rparr>])]\<rparr>)) =
     Some (CStr ''net'')
   \<and> cell_of ''Public IP''
     (instance_details example_conn
        (example_server\<lparr>sv_addresses :=
           [(''floating-net'', [\<lparr>addr = ''10.0.0.5'', ip_type = ''fixed''\<rparr>])]\<rparr>)) =
     Some (CStr ''10.0.0.5'')"
  unfolding public_ip_entry
  by (simp add: network_ips_def public_ip_examples)

end
